theory Spec2Isabelle
  imports
    Main
    "HOL-Library.Word"
    "HOL-Library.Char_ord"
    "HOL-Library.List_Lexorder"
    "HOL-Library.Multiset"
begin

unbundle bit_operations_syntax

section \<open>Go values shared by the generator and the generated code\<close>

text \<open>
  Go strings and byte slices are byte sequences: \<^typ>\<open>string\<close> (8-bit characters).
  With \<open>Char_ord\<close> and \<open>List_Lexorder\<close> the order on \<^typ>\<open>string\<close> is the bytewise
  lexicographic order, the order of Go's \<open>sort.Strings\<close>.

  An \<open>error\<close> value is one of the sentinels the code names (\<open>os.ErrNotExist\<close>, \<open>io.EOF\<close>,
  \<open>filepath.SkipDir\<close>), an error built by \<open>fmt.Errorf\<close>, or any other error of the
  environment (\<open>IOError\<close>). A call either returns or panics.
\<close>

datatype error = ErrNotExist | EOF | SkipDir | Errorf string | IOError string

datatype 'a outcome = Return 'a | Panic string

fun error_Error :: "error \<Rightarrow> string" where
  "error_Error ErrNotExist = ''file does not exist''"
| "error_Error EOF = ''EOF''"
| "error_Error SkipDir = ''skip this directory''"
| "error_Error (Errorf s) = s"
| "error_Error (IOError s) = s"

text \<open>\<open>time.Time\<close>, as an instant (nanoseconds since the epoch).\<close>

type_synonym time = int

abbreviation TAB :: char where "TAB \<equiv> CHR 0x09"
abbreviation DQ :: char where "DQ \<equiv> CHR 0x22"
abbreviation BSL :: char where "BSL \<equiv> CHR 0x5C"

text \<open>Decimal printing of an integer, as \<open>%d\<close> and \<open>fmt.Sprintln\<close> print it.\<close>

fun digits :: "nat \<Rightarrow> string" where
  "digits n = (if n < 10 then [''0123456789'' ! n]
               else digits (n div 10) @ [''0123456789'' ! (n mod 10)])"

declare digits.simps [simp del]

definition itoa :: "int \<Rightarrow> string" where
  "itoa i = (if i < 0 then ''-'' @ digits (nat (- i)) else digits (nat i))"

text \<open>
  An \<open>os.FileInfo\<close> value, as far as its interface shows it: the results of \<open>Name()\<close>,
  \<open>Size()\<close>, \<open>Mode()\<close>, \<open>ModTime()\<close> and \<open>IsDir()\<close> (\<open>Sys()\<close> is \<open>nil\<close> throughout).
  \<open>os.FileMode\<close> is a \<open>uint32\<close>.
\<close>

record fileInfo =
  Name :: string
  Size :: int
  Mode :: "32 word"
  ModTime :: time
  IsDir :: bool

definition ModeDir :: "32 word" where
  "ModeDir = push_bit 31 1"

text \<open>
  An \<open>io.Reader\<close>, as the finite stream it delivers: the bytes still to come, and the error
  \<open>Read\<close> returns once they are used up (\<open>io.EOF\<close> at a clean end).
\<close>

record reader =
  pending :: string
  final :: error

definition reader_Read :: "reader \<Rightarrow> nat \<Rightarrow> reader \<times> string \<times> error option" where
  "reader_Read r n =
     (if pending r = [] then (r, [], Some (final r))
      else (r\<lparr>pending := drop n (pending r)\<rparr>, take n (pending r), None))"

text \<open>
  An \<open>io.Writer\<close> (the \<open>bufio.Writer\<close> over the output file, taken together with the
  file): what has been written, and how many more bytes the destination takes before its
  writes fail (\<open>None\<close>: it never fails). A failed write leaves no room, so every later
  write of a byte fails too, as the writes of a \<open>bufio.Writer\<close> do after an error.
\<close>

record writer =
  written :: string
  room :: "nat option"

definition Fprint :: "writer \<Rightarrow> string \<Rightarrow> writer \<times> error option" where
  "Fprint w s =
     (case room w of
        None \<Rightarrow> (w\<lparr>written := written w @ s\<rparr>, None)
      | Some r \<Rightarrow>
          if length s \<le> r
          then (w\<lparr>written := written w @ s, room := Some (r - length s)\<rparr>, None)
          else (w\<lparr>written := written w @ take r s, room := Some 0\<rparr>,
                Some (IOError ''short write'')))"

text \<open>A write whose results the code drops.\<close>

definition put :: "writer \<Rightarrow> string \<Rightarrow> writer" where
  "put w s = fst (Fprint w s)"

section \<open>The input file system\<close>

text \<open>
  An \<open>http.File\<close> of the input, as what its methods deliver: the results of \<open>Stat()\<close> and
  of \<open>Readdir(0)\<close>, and the stream \<open>Read\<close> delivers. An \<open>http.FileSystem\<close> is its
  \<open>Open\<close>: an error (and then a \<open>nil\<close> file, as \<open>http.Dir\<close> returns) or a file.
\<close>

record srcFile =
  src_Stat :: "error + fileInfo"
  src_Readdir :: "error + fileInfo list"
  src_data :: reader

type_synonym FileSystem = "string \<Rightarrow> error + srcFile"

record Config =
  Input :: FileSystem
  Output :: string
  Package :: string
  Tags :: string

text \<open>
  The library functions the code calls, as parameters: \<open>compress/gzip\<close> (what a
  \<open>gzip.Writer\<close> has written once it is closed; what \<open>gzip.NewReader\<close> answers on a byte
  slice), the \<open>%q\<close> verb of \<open>fmt\<close>, \<open>time.Time.MarshalText\<close>, \<open>path.Join\<close> and
  \<open>path.Base\<close>, and \<open>os.Create\<close> (the writer over the created file).

  Modelled from the spec: the method \<open>validate\<close> of \<open>Config\<close> is defined in another file
  of the package. The spec names its errors (an invalid output path, a missing package
  name), so it is a parameter that reads the output path and the package name.
\<close>

record env =
  gzip_Writer :: "string \<Rightarrow> string"
  gzip_NewReader :: "string \<Rightarrow> error + reader"
  quote :: "string \<Rightarrow> string"
  MarshalText :: "time \<Rightarrow> error + string"
  Join :: "string \<Rightarrow> string \<Rightarrow> string"
  Base :: "string \<Rightarrow> string"
  os_Create :: "string \<Rightarrow> error + writer"
  validate :: "string \<Rightarrow> string \<Rightarrow> error option"

subsection \<open>The same tree\<close>

text \<open>
  Two file systems hold the same tree when \<open>Open\<close> fails on the same paths with the same
  error and, on every other path, \<open>Stat\<close> gives the same metadata, \<open>Read\<close> the same
  stream, and \<open>Readdir\<close> the same error or the same entries, in whatever order.
\<close>

definition same_tree :: "FileSystem \<Rightarrow> FileSystem \<Rightarrow> bool" where
  "same_tree fs1 fs2 =
     (\<forall>p. case (fs1 p, fs2 p) of
            (Inl e1, Inl e2) \<Rightarrow> e1 = e2
          | (Inr f1, Inr f2) \<Rightarrow>
              src_Stat f1 = src_Stat f2 \<and> src_data f1 = src_data f2 \<and>
              (case (src_Readdir f1, src_Readdir f2) of
                 (Inl e1, Inl e2) \<Rightarrow> e1 = e2
               | (Inr l1, Inr l2) \<Rightarrow> mset l1 = mset l2
               | _ \<Rightarrow> False)
          | _ \<Rightarrow> False)"

subsection \<open>\<open>vfsutil\<close>: \<open>Stat\<close>, \<open>ReadDir\<close> and \<open>Walk\<close>\<close>

text \<open>
  The helpers of package \<open>vfsutil\<close> (\<open>github.com/shurcooL/go/vfs/httpfs/vfsutil\<close>), the
  counterparts of \<open>os.Stat\<close>, \<open>ioutil.ReadDir\<close> and \<open>filepath.Walk\<close> over an
  \<open>http.FileSystem\<close>. \<open>ReadDir\<close> sorts the entries by name; the code below reads the
  names only.
\<close>

definition vfsutil_Stat :: "FileSystem \<Rightarrow> string \<Rightarrow> error + fileInfo" where
  "vfsutil_Stat fs name' =
     (case fs name' of Inl err \<Rightarrow> Inl err | Inr f \<Rightarrow> src_Stat f)"

definition vfsutil_ReadDir :: "FileSystem \<Rightarrow> string \<Rightarrow> error + fileInfo list" where
  "vfsutil_ReadDir fs name' =
     (case fs name' of
        Inl err \<Rightarrow> Inl err
      | Inr f \<Rightarrow>
          (case src_Readdir f of Inl err \<Rightarrow> Inl err | Inr list \<Rightarrow> Inr (sort_key Name list)))"

definition readDirNames :: "FileSystem \<Rightarrow> string \<Rightarrow> error + string list" where
  "readDirNames fs dirname =
     (case vfsutil_ReadDir fs dirname of
        Inl err \<Rightarrow> Inl err
      | Inr fis \<Rightarrow> Inr (sort (map Name fis)))"

text \<open>
  A \<open>filepath.WalkFunc\<close> over a state \<open>'s\<close> (what the closure changes). It is called
  with the error of the failed \<open>Stat\<close> or listing, or else with the entry's \<open>FileInfo\<close>.

  \<open>walk\<close> descends below \<open>path\<close>; the first argument bounds the depth of the descent
  (\<open>None\<close>: the bound is used up), since an \<open>http.FileSystem\<close> may be infinitely deep.
\<close>

type_synonym 's WalkFunc = "string \<Rightarrow> error + fileInfo \<Rightarrow> 's \<Rightarrow> 's \<times> error option"

fun walk :: "env \<Rightarrow> nat \<Rightarrow> FileSystem \<Rightarrow> string \<Rightarrow> fileInfo \<Rightarrow> 's WalkFunc \<Rightarrow> 's
    \<Rightarrow> ('s \<times> error option) option"
  and walk_names :: "env \<Rightarrow> nat \<Rightarrow> FileSystem \<Rightarrow> string \<Rightarrow> string list \<Rightarrow> 's WalkFunc \<Rightarrow> 's
    \<Rightarrow> ('s \<times> error option) option"
where
  "walk e 0 fs path info walkFn s = None"
| "walk e (Suc n) fs path info walkFn s =
     (case walkFn path (Inr info) s of
        (s1, Some err) \<Rightarrow>
          if IsDir info \<and> err = SkipDir then Some (s1, None) else Some (s1, Some err)
      | (s1, None) \<Rightarrow>
          if \<not> IsDir info then Some (s1, None)
          else (case readDirNames fs path of
                  Inl err \<Rightarrow> Some (walkFn path (Inl err) s1)
                | Inr names \<Rightarrow> walk_names e n fs path names walkFn s1))"
| "walk_names e n fs path [] walkFn s = Some (s, None)"
| "walk_names e n fs path (name' # names) walkFn s =
     (let filename = Join e path name' in
      case vfsutil_Stat fs filename of
        Inl err \<Rightarrow>
          (case walkFn filename (Inl err) s of
             (s1, Some err') \<Rightarrow>
               if err' \<noteq> SkipDir then Some (s1, Some err')
               else walk_names e n fs path names walkFn s1
           | (s1, None) \<Rightarrow> walk_names e n fs path names walkFn s1)
      | Inr fileInfo \<Rightarrow>
          (case walk e n fs filename fileInfo walkFn s of
             None \<Rightarrow> None
           | Some (s1, Some err) \<Rightarrow>
               if \<not> IsDir fileInfo \<or> err \<noteq> SkipDir then Some (s1, Some err)
               else walk_names e n fs path names walkFn s1
           | Some (s1, None) \<Rightarrow> walk_names e n fs path names walkFn s1))"

definition vfsutil_Walk :: "env \<Rightarrow> nat \<Rightarrow> FileSystem \<Rightarrow> string \<Rightarrow> 's WalkFunc \<Rightarrow> 's
    \<Rightarrow> ('s \<times> error option) option" where
  "vfsutil_Walk e n fs root walkFn s =
     (case vfsutil_Stat fs root of
        Inl err \<Rightarrow> Some (walkFn root (Inl err) s)
      | Inr info \<Rightarrow> walk e n fs root info walkFn s)"

section \<open>The generator\<close>

text \<open>
  The two asset kinds. In the generator a directory's \<open>entries\<close> are the paths of its
  children; in the generated code they are \<open>os.FileInfo\<close> values. A \<open>compressedFile\<close> of
  the generator has no \<open>compressedContent\<close> yet.
\<close>

record compressedFile =
  name :: string
  compressedContent :: string
  uncompressedSize :: int
  modTime :: time

record 'e dir =
  name :: string
  entries :: "'e list"
  modTime :: time

datatype 'e asset = CompressedFile compressedFile | Dir "'e dir"

record pathAsset =
  path :: string
  asset :: "string asset"

subsection \<open>\<open>readDirPaths\<close> and \<open>findFiles\<close>\<close>

definition readDirPaths :: "env \<Rightarrow> FileSystem \<Rightarrow> string \<Rightarrow> error + string list" where
  "readDirPaths e fs dirname =
     (case vfsutil_ReadDir fs dirname of
        Inl err \<Rightarrow> Inl err
      | Inr fis \<Rightarrow> Inr (sort (map (\<lambda>fi. Join e dirname (Name fi)) fis)))"

text \<open>What the closure \<open>walkFn\<close> changes: the table of contents, and the log.\<close>

record walk_state =
  toc :: "pathAsset list"
  log :: "string list"

definition walkFn :: "env \<Rightarrow> FileSystem \<Rightarrow> walk_state WalkFunc" where
  "walkFn e fs path' arg st =
     (case arg of
        Inl err \<Rightarrow>
          (st\<lparr>log := log st @
             [''can't stat file '' @ path' @ '': '' @ error_Error err @ ''\<newline>'']\<rparr>, None)
      | Inr fi \<Rightarrow>
          if IsDir fi then
            (case readDirPaths e fs path' of
               Inl err \<Rightarrow> (st, Some err)
             | Inr entries' \<Rightarrow>
                 (st\<lparr>toc := toc st @
                    [\<lparr>path = path',
                      asset = Dir \<lparr>dir.name = Base e path', entries = entries',
                                   dir.modTime = ModTime fi\<rparr>\<rparr>]\<rparr>, None))
          else
            (st\<lparr>toc := toc st @
               [\<lparr>path = path',
                 asset = CompressedFile
                   \<lparr>compressedFile.name = Base e path', compressedContent = [],
                    uncompressedSize = Size fi, compressedFile.modTime = ModTime fi\<rparr>\<rparr>]\<rparr>, None))"

definition findFiles :: "env \<Rightarrow> nat \<Rightarrow> FileSystem \<Rightarrow> walk_state
    \<Rightarrow> (walk_state \<times> error option) option" where
  "findFiles e n fs st =
     (case vfsutil_Walk e n fs ''/'' (walkFn e fs) st of
        None \<Rightarrow> None
      | Some (st', Some err) \<Rightarrow> Some (st', Some err)
      | Some (st', None) \<Rightarrow> Some (st', None))"

subsection \<open>\<open>StringWriter\<close>\<close>

text \<open>
  Modelled from the spec: the type \<open>StringWriter\<close> and its \<open>Write\<close> are defined in another
  file of the package. The spec asks that the compressed bytes be written as an escaped
  byte-string literal in which control characters, the quote and the escape character
  round-trip exactly: every byte is written as the four characters \<open>\xhh\<close>, \<open>hh\<close> its
  two hexadecimal digits, one write to the underlying writer for each byte, and \<open>Write\<close>
  reports no error.
\<close>

definition lowerHex :: string where
  "lowerHex = ''0123456789abcdef''"

definition escape_byte :: "char \<Rightarrow> string" where
  "escape_byte b =
     [BSL, CHR ''x'', lowerHex ! ((of_char b :: nat) div 16), lowerHex ! ((of_char b :: nat) mod 16)]"

definition StringWriter_Write :: "writer \<Rightarrow> string \<Rightarrow> writer" where
  "StringWriter_Write w p = foldl (\<lambda>w' b. put w' (escape_byte b)) w p"

subsection \<open>\<open>writeAssets\<close>\<close>

definition imports_text :: string where
  "imports_text = concat
     [''import (\<newline>'',
      [TAB, DQ] @ ''bytes'' @ [DQ] @ ''\<newline>'',
      [TAB, DQ] @ ''compress/gzip'' @ [DQ] @ ''\<newline>'',
      [TAB, DQ] @ ''fmt'' @ [DQ] @ ''\<newline>'',
      [TAB, DQ] @ ''io'' @ [DQ] @ ''\<newline>'',
      [TAB, DQ] @ ''log'' @ [DQ] @ ''\<newline>'',
      [TAB, DQ] @ ''net/http'' @ [DQ] @ ''\<newline>'',
      [TAB, DQ] @ ''os'' @ [DQ] @ ''\<newline>'',
      [TAB, DQ] @ ''time'' @ [DQ] @ ''\<newline>'',
      '')\<newline>'',
      ''\<newline>'']"

definition assetsFS_open_text :: string where
  "assetsFS_open_text = concat
     [''type assetsFS map[string]interface{}\<newline>'',
      ''\<newline>'',
      ''var AssetsFS http.FileSystem = func() assetsFS {\<newline>'',
      [TAB] @ ''assetsFS := assetsFS{\<newline>'']"

text \<open>
  The first loop of \<open>writeAssets\<close>: one record for each entry of the table of contents.
  \<open>c.Input.Open\<close>'s error is dropped; on a \<open>nil\<close> file, \<open>io.Copy\<close> calls \<open>Read\<close> on a
  \<open>nil\<close> interface, which panics. Otherwise \<open>io.Copy\<close> (its error dropped too) passes the
  bytes the file delivers to the \<open>gzip.Writer\<close>, which writes the compressed stream into
  the \<open>StringWriter\<close>.
\<close>

fun writeAssets_records :: "env \<Rightarrow> FileSystem \<Rightarrow> writer \<Rightarrow> pathAsset list
    \<Rightarrow> (writer \<times> error option) outcome" where
  "writeAssets_records e input w [] = Return (w, None)"
| "writeAssets_records e input w (pa # rest) =
     (case asset pa of
        Dir d \<Rightarrow>
          (case Fprint w ([TAB, TAB] @ quote e (path pa) @ '': &dir{\<newline>'') of
             (w1, Some err) \<Rightarrow> Return (w1, Some err)
           | (w1, None) \<Rightarrow>
               let w2 = put w1 ([TAB, TAB, TAB] @ ''name:    '' @ quote e (dir.name d) @ '',\<newline>'')
               in (case MarshalText e (dir.modTime d) of
                     Inl err \<Rightarrow> Return (w2, Some err)
                   | Inr modTimeBytes \<Rightarrow>
                       let w3 = put w2 ([TAB, TAB, TAB] @ ''modTime: mustUnmarshalTextTime(''
                                  @ quote e modTimeBytes @ ''),\<newline>'');
                           w4 = put w3 ([TAB, TAB] @ ''},\<newline>'')
                       in writeAssets_records e input w4 rest))
      | CompressedFile f \<Rightarrow>
          (case Fprint w ([TAB, TAB] @ quote e (path pa) @ '': &compressedFile{\<newline>'') of
             (w1, Some err) \<Rightarrow> Return (w1, Some err)
           | (w1, None) \<Rightarrow>
               let w2 = put w1 ([TAB, TAB, TAB] @ ''name:              ''
                          @ quote e (compressedFile.name f) @ '',\<newline>'');
                   w3 = put w2 ([TAB, TAB, TAB] @ ''compressedContent: []byte('' @ [DQ])
               in (case input (path pa) of
                     Inl _ \<Rightarrow>
                       Panic ''runtime error: invalid memory address or nil pointer dereference''
                   | Inr file \<Rightarrow>
                       let w4 = StringWriter_Write w3 (gzip_Writer e (pending (src_data file)));
                           w5 = put w4 ([DQ] @ ''),\<newline>'');
                           w6 = put w5 ([TAB, TAB, TAB] @ ''uncompressedSize:  ''
                                  @ itoa (uncompressedSize f) @ '',\<newline>'')
                       in (case MarshalText e (compressedFile.modTime f) of
                             Inl err \<Rightarrow> Return (w6, Some err)
                           | Inr modTimeBytes \<Rightarrow>
                               let w7 = put w6 ([TAB, TAB, TAB]
                                          @ ''modTime:           mustUnmarshalTextTime(''
                                          @ quote e modTimeBytes @ ''),\<newline>'');
                                   w8 = put w7 ([TAB, TAB] @ ''},\<newline>'')
                               in writeAssets_records e input w8 rest))))"

text \<open>The second loop: the entries of every directory, as references into the map.\<close>

fun writeAssets_entries :: "env \<Rightarrow> writer \<Rightarrow> pathAsset list \<Rightarrow> writer" where
  "writeAssets_entries e w [] = w"
| "writeAssets_entries e w (pa # rest) =
     (case asset pa of
        Dir d \<Rightarrow>
          let w1 = put w ([TAB] @ ''assetsFS['' @ quote e (path pa)
                     @ ''].(*dir).entries = []os.FileInfo{\<newline>'');
              w2 = foldl (\<lambda>w' entry. put w' ([TAB, TAB] @ ''assetsFS['' @ quote e entry
                     @ ''].(os.FileInfo),\<newline>'')) w1 (entries d);
              w3 = put w2 ([TAB] @ ''}\<newline>'')
          in writeAssets_entries e w3 rest
      | CompressedFile f \<Rightarrow> writeAssets_entries e w rest)"

definition writeAssets :: "env \<Rightarrow> writer \<Rightarrow> Config \<Rightarrow> pathAsset list
    \<Rightarrow> (writer \<times> error option) outcome" where
  "writeAssets e w c toc' =
     (case Fprint w imports_text of
        (w1, Some err) \<Rightarrow> Return (w1, Some err)
      | (w1, None) \<Rightarrow>
          (case Fprint w1 assetsFS_open_text of
             (w2, Some err) \<Rightarrow> Return (w2, Some err)
           | (w2, None) \<Rightarrow>
               (case writeAssets_records e (Input c) w2 toc' of
                  Panic m \<Rightarrow> Panic m
                | Return (w3, Some err) \<Rightarrow> Return (w3, Some err)
                | Return (w3, None) \<Rightarrow>
                    (case Fprint w3 ([TAB] @ ''}\<newline>\<newline>'') of
                       (w4, Some err) \<Rightarrow> Return (w4, Some err)
                     | (w4, None) \<Rightarrow>
                         Return (Fprint (writeAssets_entries e w4 toc')
                                   (''\<newline>'' @ [TAB] @ ''return assetsFS\<newline>}()\<newline>''))))))"

subsection \<open>\<open>writeVFS\<close> and \<open>Translate\<close>\<close>

definition writeVFS_text :: string where
  "writeVFS_text = concat
     [''\<newline>'',
      ''func (fs assetsFS) Open(path string) (http.File, error) {\<newline>'',
      [TAB] @ ''f, ok := fs[path]\<newline>'',
      [TAB] @ ''if !ok {\<newline>'',
      [TAB, TAB] @ ''return nil, os.ErrNotExist\<newline>'',
      [TAB] @ ''}\<newline>'',
      ''\<newline>'',
      [TAB] @ ''if cf, ok := f.(*compressedFile); ok {\<newline>'',
      [TAB, TAB] @ ''gr, err := gzip.NewReader(bytes.NewReader(cf.compressedContent))\<newline>'',
      [TAB, TAB] @ ''if err != nil {\<newline>'',
      [TAB, TAB, TAB] @ ''// This should never happen because we generate the gzip bytes such that they are always valid.\<newline>'',
      [TAB, TAB, TAB] @ ''panic('' @ [DQ] @ ''unexpected error reading own gzip compressed bytes: '' @ [DQ] @ '' + err.Error())\<newline>'',
      [TAB, TAB] @ ''}\<newline>'',
      [TAB, TAB] @ ''return &compressedFileInstance{\<newline>'',
      [TAB, TAB, TAB] @ ''compressedFile: cf,\<newline>'',
      [TAB, TAB, TAB] @ ''gr:             gr,\<newline>'',
      [TAB, TAB] @ ''}, nil\<newline>'',
      [TAB] @ ''}\<newline>'',
      ''\<newline>'',
      [TAB] @ ''return f.(http.File), nil\<newline>'',
      ''}\<newline>'',
      ''\<newline>'',
      ''func mustUnmarshalTextTime(text string) time.Time {\<newline>'',
      [TAB] @ ''var t time.Time\<newline>'',
      [TAB] @ ''err := t.UnmarshalText([]byte(text))\<newline>'',
      [TAB] @ ''if err != nil {\<newline>'',
      [TAB, TAB] @ ''panic(err)\<newline>'',
      [TAB] @ ''}\<newline>'',
      [TAB] @ ''return t\<newline>'',
      ''}\<newline>'',
      ''\<newline>'',
      ''// compressedFile is ...\<newline>'',
      ''type compressedFile struct {\<newline>'',
      [TAB] @ ''name              string\<newline>'',
      [TAB] @ ''compressedContent []byte\<newline>'',
      [TAB] @ ''uncompressedSize  int64\<newline>'',
      [TAB] @ ''modTime           time.Time\<newline>'',
      ''}\<newline>'',
      ''\<newline>'',
      ''func (f *compressedFile) Readdir(count int) ([]os.FileInfo, error) {\<newline>'',
      [TAB] @ ''return nil, fmt.Errorf('' @ [DQ] @ ''cannot Readdir from file %s'' @ [DQ] @ '', f.name)\<newline>'',
      ''}\<newline>'',
      ''func (f *compressedFile) Stat() (os.FileInfo, error) { return f, nil }\<newline>'',
      ''\<newline>'',
      ''func (f *compressedFile) GzipBytes() []byte {\<newline>'',
      [TAB] @ ''log.Println('' @ [DQ] @ ''using GzipBytes for'' @ [DQ] @ '', f.name)\<newline>'',
      [TAB] @ ''return f.compressedContent\<newline>'',
      ''}\<newline>'',
      ''\<newline>'',
      ''func (f *compressedFile) Name() string       { return f.name }\<newline>'',
      ''func (f *compressedFile) Size() int64        { return f.uncompressedSize }\<newline>'',
      ''func (f *compressedFile) Mode() os.FileMode  { return 0444 }\<newline>'',
      ''func (f *compressedFile) ModTime() time.Time { return f.modTime }\<newline>'',
      ''func (f *compressedFile) IsDir() bool        { return false }\<newline>'',
      ''func (f *compressedFile) Sys() interface{}   { return nil }\<newline>'',
      ''\<newline>'',
      ''type compressedFileInstance struct {\<newline>'',
      [TAB] @ ''*compressedFile\<newline>'',
      [TAB] @ ''gr io.ReadCloser\<newline>'',
      ''}\<newline>'',
      ''\<newline>'',
      ''func (f *compressedFileInstance) Read(p []byte) (n int, err error) {\<newline>'',
      [TAB] @ ''return f.gr.Read(p)\<newline>'',
      ''}\<newline>'',
      ''func (f *compressedFileInstance) Seek(offset int64, whence int) (int64, error) {\<newline>'',
      [TAB] @ ''panic('' @ [DQ] @ ''Seek not yet implemented'' @ [DQ] @ '')\<newline>'',
      ''}\<newline>'',
      ''func (f *compressedFileInstance) Close() error {\<newline>'',
      [TAB] @ ''return f.gr.Close()\<newline>'',
      ''}\<newline>'',
      ''\<newline>'',
      ''// dir is ...\<newline>'',
      ''type dir struct {\<newline>'',
      [TAB] @ ''name    string\<newline>'',
      [TAB] @ ''entries []os.FileInfo\<newline>'',
      [TAB] @ ''modTime time.Time\<newline>'',
      ''}\<newline>'',
      ''\<newline>'',
      ''func (d *dir) Read([]byte) (int, error) {\<newline>'',
      [TAB] @ ''return 0, fmt.Errorf('' @ [DQ] @ ''cannot Read from directory %s'' @ [DQ] @ '', d.name)\<newline>'',
      ''}\<newline>'',
      ''func (d *dir) Seek(offset int64, whence int) (int64, error) {\<newline>'',
      [TAB] @ ''return 0, fmt.Errorf('' @ [DQ] @ ''cannot Seek in directory %s'' @ [DQ] @ '', d.name)\<newline>'',
      ''}\<newline>'',
      ''func (d *dir) Close() error { return nil }\<newline>'',
      ''func (d *dir) Readdir(count int) ([]os.FileInfo, error) {\<newline>'',
      [TAB] @ ''if count != 0 {\<newline>'',
      [TAB, TAB] @ ''log.Panicln('' @ [DQ] @ ''httpDir.Readdir count unsupported value:'' @ [DQ] @ '', count)\<newline>'',
      [TAB] @ ''}\<newline>'',
      [TAB] @ ''return d.entries, nil\<newline>'',
      ''}\<newline>'',
      ''func (d *dir) Stat() (os.FileInfo, error) { return d, nil }\<newline>'',
      ''\<newline>'',
      ''func (d *dir) Name() string       { return d.name }\<newline>'',
      ''func (d *dir) Size() int64        { return 0 }\<newline>'',
      ''func (d *dir) Mode() os.FileMode  { return 0755 | os.ModeDir }\<newline>'',
      ''func (d *dir) ModTime() time.Time { return d.modTime }\<newline>'',
      ''func (d *dir) IsDir() bool        { return true }\<newline>'',
      ''func (d *dir) Sys() interface{}   { return nil }\<newline>'']"

definition writeVFS :: "writer \<Rightarrow> writer \<times> error option" where
  "writeVFS w = Fprint w writeVFS_text"

text \<open>
  \<open>Translate\<close> returns the bytes of the output file, if it came to create it, and its
  error; or it panics. The first argument bounds the depth of the walk.
\<close>

definition Translate :: "env \<Rightarrow> nat \<Rightarrow> Config \<Rightarrow> (string option \<times> error option) outcome option" where
  "Translate e n c =
     (case validate e (Output c) (Package c) of
        Some err \<Rightarrow> Some (Return (None, Some err))
      | None \<Rightarrow>
          (case findFiles e n (Input c) \<lparr>toc = [], log = []\<rparr> of
             None \<Rightarrow> None
           | Some (st, Some err) \<Rightarrow> Some (Return (None, Some err))
           | Some (st, None) \<Rightarrow>
               (case os_Create e (Output c) of
                  Inl err \<Rightarrow> Some (Return (None, Some err))
                | Inr buf \<Rightarrow>
                    (case Fprint buf ''// generated via `go generate`; do not edit\<newline>\<newline>'' of
                       (b1, Some err) \<Rightarrow> Some (Return (Some (written b1), Some err))
                     | (b1, None) \<Rightarrow>
                         (case (if Tags c \<noteq> []
                                then Fprint b1 (''// +build '' @ Tags c @ ''\<newline>\<newline>'')
                                else (b1, None)) of
                            (b2, Some err) \<Rightarrow> Some (Return (Some (written b2), Some err))
                          | (b2, None) \<Rightarrow>
                              (case Fprint b2 (''package '' @ Package c @ ''\<newline>\<newline>'') of
                                 (b3, Some err) \<Rightarrow> Some (Return (Some (written b3), Some err))
                               | (b3, None) \<Rightarrow>
                                   (case writeAssets e b3 c (toc st) of
                                      Panic m \<Rightarrow> Some (Panic m)
                                    | Return (b4, Some err) \<Rightarrow>
                                        Some (Return (Some (written b4), Some err))
                                    | Return (b4, None) \<Rightarrow>
                                        (case writeVFS b4 of
                                           (b5, err) \<Rightarrow>
                                             Some (Return (Some (written b5), err))))))))))"

section \<open>The generated virtual file system (the text written by \<open>writeVFS\<close>)\<close>

text \<open>The values of the map \<open>assetsFS\<close>: a \<open>*compressedFile\<close> or a \<open>*dir\<close>.\<close>

type_synonym assetsFS = "string \<rightharpoonup> fileInfo asset"

record compressedFileInstance =
  cfile :: compressedFile
  gr :: reader

text \<open>The \<open>http.File\<close> values \<open>Open\<close> returns: a \<open>*compressedFileInstance\<close> or a \<open>*dir\<close>.\<close>

datatype http_File = FileInstance compressedFileInstance | DirFile "fileInfo dir"

definition Open :: "env \<Rightarrow> assetsFS \<Rightarrow> string \<Rightarrow> (error + http_File) outcome" where
  "Open e fs path' =
     (case fs path' of
        None \<Rightarrow> Return (Inl ErrNotExist)
      | Some (CompressedFile cf) \<Rightarrow>
          (case gzip_NewReader e (compressedContent cf) of
             Inl err \<Rightarrow>
               Panic (''unexpected error reading own gzip compressed bytes: '' @ error_Error err)
           | Inr r \<Rightarrow> Return (Inr (FileInstance \<lparr>cfile = cf, gr = r\<rparr>)))
      | Some (Dir d) \<Rightarrow> Return (Inr (DirFile d)))"

subsection \<open>\<open>compressedFile\<close> and \<open>compressedFileInstance\<close>\<close>

definition compressedFile_Readdir ::
  "compressedFile \<Rightarrow> int \<Rightarrow> (fileInfo list \<times> error option) outcome" where
  "compressedFile_Readdir f cnt =
     Return ([], Some (Errorf (''cannot Readdir from file '' @ compressedFile.name f)))"

definition compressedFile_Name :: "compressedFile \<Rightarrow> string" where
  "compressedFile_Name f = compressedFile.name f"

definition compressedFile_Size :: "compressedFile \<Rightarrow> int" where
  "compressedFile_Size f = uncompressedSize f"

definition compressedFile_Mode :: "compressedFile \<Rightarrow> 32 word" where
  \<comment> \<open>octal 0444\<close>
  "compressedFile_Mode f = 0x124"

definition compressedFile_ModTime :: "compressedFile \<Rightarrow> time" where
  "compressedFile_ModTime f = compressedFile.modTime f"

definition compressedFile_IsDir :: "compressedFile \<Rightarrow> bool" where
  "compressedFile_IsDir f = False"

text \<open>The receiver itself, seen as an \<open>os.FileInfo\<close>.\<close>

definition compressedFile_FileInfo :: "compressedFile \<Rightarrow> fileInfo" where
  "compressedFile_FileInfo f =
     \<lparr>Name = compressedFile_Name f, Size = compressedFile_Size f, Mode = compressedFile_Mode f,
      ModTime = compressedFile_ModTime f, IsDir = compressedFile_IsDir f\<rparr>"

definition compressedFile_Stat :: "compressedFile \<Rightarrow> (fileInfo \<times> error option) outcome" where
  "compressedFile_Stat f = Return (compressedFile_FileInfo f, None)"

definition compressedFileInstance_Read ::
  "compressedFileInstance \<Rightarrow> nat \<Rightarrow> (compressedFileInstance \<times> string \<times> error option) outcome" where
  "compressedFileInstance_Read f n =
     (case reader_Read (gr f) n of (r, p, err) \<Rightarrow> Return (f\<lparr>gr := r\<rparr>, p, err))"

definition compressedFileInstance_Seek ::
  "compressedFileInstance \<Rightarrow> int \<Rightarrow> int \<Rightarrow> (int \<times> error option) outcome" where
  "compressedFileInstance_Seek f offset whence = Panic ''Seek not yet implemented''"

subsection \<open>\<open>dir\<close>\<close>

definition dir_Read :: "fileInfo dir \<Rightarrow> nat \<Rightarrow> (fileInfo dir \<times> string \<times> error option) outcome" where
  "dir_Read d n = Return (d, [], Some (Errorf (''cannot Read from directory '' @ dir.name d)))"

definition dir_Seek :: "fileInfo dir \<Rightarrow> int \<Rightarrow> int \<Rightarrow> (int \<times> error option) outcome" where
  "dir_Seek d offset whence =
     Return (0, Some (Errorf (''cannot Seek in directory '' @ dir.name d)))"

definition dir_Close :: "fileInfo dir \<Rightarrow> error option" where
  "dir_Close d = None"

definition dir_Readdir :: "fileInfo dir \<Rightarrow> int \<Rightarrow> (fileInfo list \<times> error option) outcome" where
  \<comment> \<open>\<open>log.Panicln\<close> panics with the \<open>fmt.Sprintln\<close> of its arguments\<close>
  "dir_Readdir d cnt =
     (if cnt \<noteq> 0
      then Panic (''httpDir.Readdir count unsupported value: '' @ itoa cnt @ ''\<newline>'')
      else Return (entries d, None))"

definition dir_Name :: "'e dir \<Rightarrow> string" where
  "dir_Name d = dir.name d"

definition dir_Size :: "'e dir \<Rightarrow> int" where
  "dir_Size d = 0"

definition dir_Mode :: "'e dir \<Rightarrow> 32 word" where
  \<comment> \<open>octal 0755, with \<open>os.ModeDir\<close>\<close>
  "dir_Mode d = 0x1ED OR ModeDir"

definition dir_ModTime :: "'e dir \<Rightarrow> time" where
  "dir_ModTime d = dir.modTime d"

definition dir_IsDir :: "'e dir \<Rightarrow> bool" where
  "dir_IsDir d = True"

definition dir_FileInfo :: "'e dir \<Rightarrow> fileInfo" where
  "dir_FileInfo d =
     \<lparr>Name = dir_Name d, Size = dir_Size d, Mode = dir_Mode d,
      ModTime = dir_ModTime d, IsDir = dir_IsDir d\<rparr>"

definition dir_Stat :: "fileInfo dir \<Rightarrow> (fileInfo \<times> error option) outcome" where
  "dir_Stat d = Return (dir_FileInfo d, None)"

subsection \<open>Method calls on an \<open>http.File\<close>\<close>

text \<open>
  A call on the interface value runs the method of the handle's type; the methods of the
  embedded \<open>*compressedFile\<close> are those of a \<open>*compressedFileInstance\<close> too.
\<close>

fun Read :: "http_File \<Rightarrow> nat \<Rightarrow> (http_File \<times> string \<times> error option) outcome" where
  "Read (FileInstance f) n =
     (case compressedFileInstance_Read f n of
        Return (f', p, err) \<Rightarrow> Return (FileInstance f', p, err)
      | Panic m \<Rightarrow> Panic m)"
| "Read (DirFile d) n =
     (case dir_Read d n of
        Return (d', p, err) \<Rightarrow> Return (DirFile d', p, err)
      | Panic m \<Rightarrow> Panic m)"

fun Seek :: "http_File \<Rightarrow> int \<Rightarrow> int \<Rightarrow> (int \<times> error option) outcome" where
  "Seek (FileInstance f) offset whence = compressedFileInstance_Seek f offset whence"
| "Seek (DirFile d) offset whence = dir_Seek d offset whence"

fun Readdir :: "http_File \<Rightarrow> int \<Rightarrow> (fileInfo list \<times> error option) outcome" where
  "Readdir (FileInstance f) cnt = compressedFile_Readdir (cfile f) cnt"
| "Readdir (DirFile d) cnt = dir_Readdir d cnt"

fun Stat :: "http_File \<Rightarrow> (fileInfo \<times> error option) outcome" where
  "Stat (FileInstance f) = compressedFile_Stat (cfile f)"
| "Stat (DirFile d) = dir_Stat d"

subsection \<open>The initializer of \<open>AssetsFS\<close> (the text written by \<open>writeAssets\<close>)\<close>

text \<open>
  The value of a map element as an \<open>os.FileInfo\<close>, and the statements the second loop of
  \<open>writeAssets\<close> writes: for every directory of the table of contents,
  \<open>assetsFS[path].(*dir).entries = []os.FileInfo{assetsFS[entry].(os.FileInfo), ...}\<close>. A
  type assertion on a missing element (a \<open>nil\<close> interface) or on an element of the other
  type panics.
\<close>

fun asset_FileInfo :: "fileInfo asset \<Rightarrow> fileInfo" where
  "asset_FileInfo (CompressedFile f) = compressedFile_FileInfo f"
| "asset_FileInfo (Dir d) = dir_FileInfo d"

fun entries_FileInfo :: "assetsFS \<Rightarrow> string list \<Rightarrow> fileInfo list outcome" where
  "entries_FileInfo m [] = Return []"
| "entries_FileInfo m (entry # rest) =
     (case m entry of
        None \<Rightarrow> Panic ''interface conversion: interface is nil, not os.FileInfo''
      | Some a \<Rightarrow>
          (case entries_FileInfo m rest of
             Panic msg \<Rightarrow> Panic msg
           | Return fis \<Rightarrow> Return (asset_FileInfo a # fis)))"

fun assetsFS_entries :: "assetsFS \<Rightarrow> pathAsset list \<Rightarrow> assetsFS outcome" where
  "assetsFS_entries m [] = Return m"
| "assetsFS_entries m (pa # rest) =
     (case asset pa of
        CompressedFile f \<Rightarrow> assetsFS_entries m rest
      | Dir d \<Rightarrow>
          (case m (path pa) of
             Some (Dir rd) \<Rightarrow>
               (case entries_FileInfo m (entries d) of
                  Panic msg \<Rightarrow> Panic msg
                | Return fis \<Rightarrow> assetsFS_entries (m(path pa \<mapsto> Dir (rd\<lparr>entries := fis\<rparr>))) rest)
           | Some (CompressedFile f) \<Rightarrow>
               Panic ''interface conversion: interface {} is *compressedFile, not *dir''
           | None \<Rightarrow> Panic ''interface conversion: interface {} is nil, not *dir''))"

section \<open>A concrete environment and source tree\<close>

text \<open>
  An instance of the library parameters, to run the definitions on: a codec that stores
  the bytes behind the two magic bytes of gzip, a \<open>%q\<close> that puts its argument between
  double quotes, times printed as numbers, \<open>Join\<close> and \<open>Base\<close> for clean paths and plain
  names, an output that never fails, and a \<open>validate\<close> that asks for an output path and a
  package name.
\<close>

definition toy_env :: env where
  "toy_env =
     \<lparr>gzip_Writer = (\<lambda>bs. [CHR 0x1F, CHR 0x8B] @ bs),
      gzip_NewReader = (\<lambda>bs.
         case bs of
           a # b # rest \<Rightarrow>
             if a = CHR 0x1F \<and> b = CHR 0x8B then Inr \<lparr>pending = rest, final = EOF\<rparr>
             else Inl (IOError ''gzip: invalid header'')
         | _ \<Rightarrow> Inl EOF),
      quote = (\<lambda>s. [DQ] @ s @ [DQ]),
      MarshalText = (\<lambda>t. Inr (itoa t)),
      Join = (\<lambda>d n. if d = ''/'' then d @ n else d @ ''/'' @ n),
      Base = (\<lambda>p. if p = ''/'' then p else rev (takeWhile (\<lambda>c. c \<noteq> CHR ''/'') (rev p))),
      os_Create = (\<lambda>p. Inr \<lparr>written = [], room = None\<rparr>),
      validate = (\<lambda>output package.
         if output = [] \<or> package = [] then Some (Errorf ''invalid configuration'') else None)\<rparr>"

text \<open>The tree of the spec's scenario: \<open>/a.txt\<close> holds "hello", \<open>/sub/b.txt\<close> holds "world".\<close>

definition info_root :: fileInfo where
  "info_root = \<lparr>Name = ''/'', Size = 0, Mode = 0x1ED OR ModeDir, ModTime = 100, IsDir = True\<rparr>"

definition info_a :: fileInfo where
  "info_a = \<lparr>Name = ''a.txt'', Size = 5, Mode = 0x1A4, ModTime = 200, IsDir = False\<rparr>"

definition info_sub :: fileInfo where
  "info_sub = \<lparr>Name = ''sub'', Size = 0, Mode = 0x1ED OR ModeDir, ModTime = 300, IsDir = True\<rparr>"

definition info_b :: fileInfo where
  "info_b = \<lparr>Name = ''b.txt'', Size = 5, Mode = 0x1A4, ModTime = 400, IsDir = False\<rparr>"

definition src_dir :: "fileInfo \<Rightarrow> fileInfo list \<Rightarrow> srcFile" where
  "src_dir fi children =
     \<lparr>src_Stat = Inr fi, src_Readdir = Inr children,
      src_data = \<lparr>pending = [], final = IOError ''is a directory''\<rparr>\<rparr>"

definition src_file :: "fileInfo \<Rightarrow> string \<Rightarrow> srcFile" where
  "src_file fi content =
     \<lparr>src_Stat = Inr fi, src_Readdir = Inl (IOError ''not a directory''),
      src_data = \<lparr>pending = content, final = EOF\<rparr>\<rparr>"

definition scenario_fs :: FileSystem where
  "scenario_fs p =
     (if p = ''/'' then Inr (src_dir info_root [info_sub, info_a])
      else if p = ''/a.txt'' then Inr (src_file info_a ''hello'')
      else if p = ''/sub'' then Inr (src_dir info_sub [info_b])
      else if p = ''/sub/b.txt'' then Inr (src_file info_b ''world'')
      else Inl ErrNotExist)"

definition scenario_config :: Config where
  "scenario_config =
     \<lparr>Input = scenario_fs, Output = ''assets_vfsdata.go'', Package = ''main'', Tags = ''dev''\<rparr>"

text \<open>
  The table of contents of that tree, the map its composite literal denotes under
  \<open>toy_env\<close> (directories without entries yet), and the map once the entries are set.
\<close>

definition cf_a :: compressedFile where
  "cf_a = \<lparr>compressedFile.name = ''a.txt'', compressedContent = [CHR 0x1F, CHR 0x8B] @ ''hello'',
           uncompressedSize = 5, compressedFile.modTime = 200\<rparr>"

definition cf_b :: compressedFile where
  "cf_b = \<lparr>compressedFile.name = ''b.txt'', compressedContent = [CHR 0x1F, CHR 0x8B] @ ''world'',
           uncompressedSize = 5, compressedFile.modTime = 400\<rparr>"

definition handle_sub :: "fileInfo dir" where
  "handle_sub = \<lparr>dir.name = ''sub'', entries = [compressedFile_FileInfo cf_b], dir.modTime = 300\<rparr>"

definition handle_root :: "fileInfo dir" where
  "handle_root =
     \<lparr>dir.name = ''/'', entries = [compressedFile_FileInfo cf_a, dir_FileInfo handle_sub],
      dir.modTime = 100\<rparr>"

definition scenario_toc :: "pathAsset list" where
  "scenario_toc =
     [\<lparr>path = ''/'',
       asset = Dir \<lparr>dir.name = ''/'', entries = [''/a.txt'', ''/sub''], dir.modTime = 100\<rparr>\<rparr>,
      \<lparr>path = ''/a.txt'', asset = CompressedFile (cf_a\<lparr>compressedContent := []\<rparr>)\<rparr>,
      \<lparr>path = ''/sub'',
       asset = Dir \<lparr>dir.name = ''sub'', entries = [''/sub/b.txt''], dir.modTime = 300\<rparr>\<rparr>,
      \<lparr>path = ''/sub/b.txt'', asset = CompressedFile (cf_b\<lparr>compressedContent := []\<rparr>)\<rparr>]"

definition scenario_literal :: assetsFS where
  "scenario_literal p =
     (if p = ''/'' then Some (Dir (handle_root\<lparr>entries := []\<rparr>))
      else if p = ''/a.txt'' then Some (CompressedFile cf_a)
      else if p = ''/sub'' then Some (Dir (handle_sub\<lparr>entries := []\<rparr>))
      else if p = ''/sub/b.txt'' then Some (CompressedFile cf_b)
      else None)"

definition scenario_assets :: assetsFS where
  "scenario_assets p =
     (if p = ''/'' then Some (Dir handle_root)
      else if p = ''/a.txt'' then Some (CompressedFile cf_a)
      else if p = ''/sub'' then Some (Dir handle_sub)
      else if p = ''/sub/b.txt'' then Some (CompressedFile cf_b)
      else None)"

text \<open>
  The scenario's tree with the root listed in the other order, and the tree as it is when
  \<open>/a.txt\<close> can no longer be opened.
\<close>

definition reordered_fs :: FileSystem where
  "reordered_fs p =
     (if p = ''/'' then Inr (src_dir info_root [info_a, info_sub]) else scenario_fs p)"

definition unreadable_fs :: FileSystem where
  "unreadable_fs p =
     (if p = ''/a.txt'' then Inl (IOError ''permission denied'') else scenario_fs p)"


definition panics :: "'a outcome \<Rightarrow> bool" where
  "panics r = (case r of Panic m \<Rightarrow> True | Return v \<Rightarrow> False)"

section \<open>Properties of the generated file system\<close>

text \<open>
  C4. \<open>Seek\<close> on a file handle panics, whatever the file, its stream, the offset and
  \<open>whence\<close> are.
\<close>

theorem Seek_file_panics:
  "Seek (FileInstance f) offset whence = Panic ''Seek not yet implemented''"
  by (simp add: compressedFileInstance_Seek_def)

text \<open>
  C10. \<open>Seek\<close> on a directory handle returns, for every offset and \<open>whence\<close>, position 0
  and the error "cannot Seek in directory <name>": an ordinary error return, not a panic.
\<close>

theorem Seek_dir_returns_error:
  "Seek (DirFile d) offset whence =
     Return (0, Some (Errorf (''cannot Seek in directory '' @ dir.name d)))"
  by (simp add: dir_Seek_def)

subsection \<open>The initializer and \<open>readDirPaths\<close>\<close>

lemma dir_FileInfo_entries [simp]:
  "dir_FileInfo (rd\<lparr>entries := fis\<rparr>) = dir_FileInfo rd"
  by (simp add: dir_FileInfo_def dir_Name_def dir_Size_def dir_Mode_def dir_ModTime_def dir_IsDir_def)

lemma entries_FileInfo_cong:
  "(\<And>p. map_option asset_FileInfo (m' p) = map_option asset_FileInfo (m p))
    \<Longrightarrow> entries_FileInfo m' ps = entries_FileInfo m ps"
proof (induction ps)
  case Nil
  show ?case by simp
next
  case (Cons p ps)
  have "map_option asset_FileInfo (m' p) = map_option asset_FileInfo (m p)"
    by (rule Cons.prems)
  moreover have "entries_FileInfo m' ps = entries_FileInfo m ps"
    by (rule Cons.IH) (rule Cons.prems)
  ultimately show ?case
    by (cases "m' p"; cases "m p") (simp_all split: outcome.splits)
qed

lemma assetsFS_entries_FileInfo:
  "assetsFS_entries m toc' = Return m'
    \<Longrightarrow> map_option asset_FileInfo (m' p) = map_option asset_FileInfo (m p)"
proof (induction toc' arbitrary: m)
  case Nil
  then show ?case by simp
next
  case (Cons pa rest)
  show ?case
  proof (cases "asset pa")
    case (CompressedFile f)
    with Cons show ?thesis by simp
  next
    case (Dir d)
    from Cons.prems Dir obtain rd fis where
      rd: "m (path pa) = Some (Dir rd)" and
      fis: "entries_FileInfo m (entries d) = Return fis" and
      rest: "assetsFS_entries (m(path pa \<mapsto> Dir (rd\<lparr>entries := fis\<rparr>))) rest = Return m'"
      by (auto split: option.splits asset.splits outcome.splits)
    from Cons.IH [OF rest] rd show ?thesis
      by (cases "p = path pa") auto
  qed
qed

lemma assetsFS_entries_other:
  "assetsFS_entries m toc' = Return m' \<Longrightarrow> p \<notin> path ` set toc' \<Longrightarrow> m' p = m p"
proof (induction toc' arbitrary: m)
  case Nil
  then show ?case by simp
next
  case (Cons pa rest)
  show ?case
  proof (cases "asset pa")
    case (CompressedFile f)
    with Cons show ?thesis by simp
  next
    case (Dir d)
    from Cons.prems Dir obtain rd fis where
      rest: "assetsFS_entries (m(path pa \<mapsto> Dir (rd\<lparr>entries := fis\<rparr>))) rest = Return m'"
      by (auto split: option.splits asset.splits outcome.splits)
    from Cons.IH [OF rest] Cons.prems(2) show ?thesis by auto
  qed
qed

lemma assetsFS_entries_wired:
  "assetsFS_entries m toc' = Return m' \<Longrightarrow> distinct (map path toc') \<Longrightarrow> pa \<in> set toc'
    \<Longrightarrow> asset pa = Dir d
    \<Longrightarrow> \<exists>rd. m' (path pa) = Some (Dir rd) \<and> entries_FileInfo m' (entries d) = Return (entries rd)"
proof (induction toc' arbitrary: m)
  case Nil
  then show ?case by simp
next
  case (Cons qa rest)
  show ?case
  proof (cases "pa = qa")
    case True
    from Cons.prems True obtain rd fis where
      rd: "m (path pa) = Some (Dir rd)" and
      fis: "entries_FileInfo m (entries d) = Return fis" and
      rest: "assetsFS_entries (m(path pa \<mapsto> Dir (rd\<lparr>entries := fis\<rparr>))) rest = Return m'"
      by (auto split: option.splits asset.splits outcome.splits)
    from Cons.prems(2) True have "path pa \<notin> path ` set rest" by auto
    from assetsFS_entries_other [OF rest this]
    have at: "m' (path pa) = Some (Dir (rd\<lparr>entries := fis\<rparr>))" by simp
    have "entries_FileInfo m' (entries d) = entries_FileInfo m (entries d)"
    proof (rule entries_FileInfo_cong)
      fix p
      show "map_option asset_FileInfo (m' p) = map_option asset_FileInfo (m p)"
        using assetsFS_entries_FileInfo [OF Cons.prems(1)] .
    qed
    with fis at show ?thesis by simp
  next
    case False
    with Cons.prems have in_rest: "pa \<in> set rest" by simp
    from Cons.prems(2) have dist: "distinct (map path rest)" by simp
    show ?thesis
    proof (cases "asset qa")
      case (CompressedFile f)
      with Cons.prems(1) have "assetsFS_entries m rest = Return m'" by simp
      from Cons.IH [OF this dist in_rest Cons.prems(4)] show ?thesis .
    next
      case (Dir d')
      from Cons.prems(1) Dir obtain rd fis where
        rest: "assetsFS_entries (m(path qa \<mapsto> Dir (rd\<lparr>entries := fis\<rparr>))) rest = Return m'"
        by (auto split: option.splits asset.splits outcome.splits)
      from Cons.IH [OF rest dist in_rest Cons.prems(4)] show ?thesis .
    qed
  qed
qed

lemma append_le_append: "(pre @ a \<le> pre @ b) = (a \<le> (b :: string))"
  by (induction pre) simp_all

lemma sort_map_prefix: "sort (map ((@) pre) (ns :: string list)) = map ((@) pre) (sort ns)"
proof (rule properties_for_sort)
  show "mset (map ((@) pre) (sort ns)) = mset (map ((@) pre) ns)" by simp
  have "sorted (sort ns)" by simp
  then show "sorted (map ((@) pre) (sort ns))"
    by (simp add: sorted_map append_le_append)
qed

lemma readDirPaths_sorted:
  "readDirPaths e fs dirname = Inr paths \<Longrightarrow>
     sorted paths \<and> (\<exists>fis. vfsutil_ReadDir fs dirname = Inr fis
        \<and> mset paths = mset (map (\<lambda>fi. Join e dirname (Name fi)) fis))"
  by (auto simp: readDirPaths_def split: sum.splits)

lemma readDirPaths_by_name:
  assumes "vfsutil_ReadDir fs dirname = Inr fis"
    and "\<forall>fi\<in>set fis. Join e dirname (Name fi) = pre @ Name fi"
  shows "readDirPaths e fs dirname = Inr (map ((@) pre) (sort (map Name fis)))"
proof -
  from assms(2) have "map (\<lambda>fi. Join e dirname (Name fi)) fis = map ((@) pre) (map Name fis)"
    by simp
  then show ?thesis
    using assms(1) by (simp add: readDirPaths_def sort_map_prefix del: map_map)
qed

subsection \<open>The definitions, run on the scenario\<close>

lemma scenario_findFiles:
  "findFiles toy_env 3 scenario_fs \<lparr>toc = [], log = []\<rparr> = Some (\<lparr>toc = scenario_toc, log = []\<rparr>, None)"
  by (simp add: findFiles_def vfsutil_Walk_def vfsutil_Stat_def scenario_fs_def src_dir_def
      src_file_def numeral_3_eq_3 walkFn_def readDirPaths_def vfsutil_ReadDir_def toy_env_def
      readDirNames_def info_root_def info_a_def info_sub_def info_b_def scenario_toc_def cf_a_def cf_b_def)

lemma scenario_ReadDir: "vfsutil_ReadDir scenario_fs ''/'' = Inr [info_a, info_sub]"
  by (simp add: vfsutil_ReadDir_def scenario_fs_def src_dir_def info_a_def info_sub_def)

lemma scenario_readDirPaths: "readDirPaths toy_env scenario_fs ''/'' = Inr [''/a.txt'', ''/sub'']"
  by (simp add: readDirPaths_def scenario_ReadDir) (simp add: toy_env_def info_a_def info_sub_def)

lemma scenario_assetsFS_entries:
  "assetsFS_entries scenario_literal scenario_toc = Return scenario_assets"
proof -
  have "scenario_literal
          (''/'' \<mapsto> Dir (handle_root\<lparr>entries := [],
              entries := [compressedFile_FileInfo cf_a, dir_FileInfo handle_sub]\<rparr>),
           ''/sub'' \<mapsto> Dir (handle_sub\<lparr>entries := [], entries := [compressedFile_FileInfo cf_b]\<rparr>))
        = scenario_assets"
    by (rule ext) (simp add: scenario_literal_def scenario_assets_def handle_root_def handle_sub_def)
  then show ?thesis
    by (simp add: scenario_toc_def scenario_literal_def)
qed




text \<open>
  C6 (as amended). \<open>Stat\<close> returns the handle's own metadata: for a file handle the
  uncompressed size and the mode 0444 (no write bit, no directory bit); for a directory
  handle the size 0 and the mode 0755 with \<open>os.ModeDir\<close>, which has the directory bit and
  the owner's write bit. The masks are \<open>0x92\<close> for the three write bits (octal 0222) and
  \<open>0x80\<close> for the owner's (octal 0200).
\<close>

theorem Stat_size_and_mode:
  "Stat (FileInstance f) =
     Return (\<lparr>Name = compressedFile.name (cfile f), Size = uncompressedSize (cfile f),
              Mode = 0x124, ModTime = compressedFile.modTime (cfile f), IsDir = False\<rparr>, None)
   \<and> Stat (DirFile d) =
     Return (\<lparr>Name = dir.name d, Size = 0, Mode = 0x1ED OR ModeDir,
              ModTime = dir.modTime d, IsDir = True\<rparr>, None)
   \<and> (0x124 :: 32 word) AND ModeDir = 0
   \<and> (0x1ED OR ModeDir) AND ModeDir = ModeDir
   \<and> (0x124 :: 32 word) AND 0x92 = 0
   \<and> (0x1ED OR ModeDir) AND (0x92 :: 32 word) = 0x80"
  by (simp add: compressedFile_Stat_def compressedFile_FileInfo_def compressedFile_Name_def
      compressedFile_Size_def compressedFile_Mode_def compressedFile_ModTime_def
      compressedFile_IsDir_def dir_Stat_def dir_FileInfo_def dir_Name_def dir_Size_def
      dir_Mode_def dir_ModTime_def dir_IsDir_def ModeDir_def)

text \<open>
  The mode \<open>Stat\<close> returns for the directory \<open>/sub\<close> of the scenario has a write bit: it
  is not a read-only mode.
\<close>

theorem Stat_dir_mode_not_read_only:
  "Stat (DirFile handle_sub) =
     Return (\<lparr>Name = ''sub'', Size = 0, Mode = 0x800001ED, ModTime = 300, IsDir = True\<rparr>, None)
   \<and> (0x800001ED :: 32 word) AND 0x92 \<noteq> 0"
  by (simp add: handle_sub_def dir_Stat_def dir_FileInfo_def dir_Name_def dir_Size_def
      dir_Mode_def dir_ModTime_def dir_IsDir_def ModeDir_def)

text \<open>
  C8 (as amended). \<open>Read\<close> on a directory handle and \<open>Readdir\<close> on a file handle always
  fail, with an ordinary error return ("cannot Read from directory <name>", "cannot
  Readdir from file <name>"): they return, and do not panic.
\<close>

theorem wrong_kind_returns_error:
  "Read (DirFile d) n
     = Return (DirFile d, [], Some (Errorf (''cannot Read from directory '' @ dir.name d)))
   \<and> Readdir (FileInstance f) cnt
     = Return ([], Some (Errorf (''cannot Readdir from file '' @ compressedFile.name (cfile f))))
   \<and> \<not> panics (Read (DirFile d) n)
   \<and> \<not> panics (Readdir (FileInstance f) cnt)"
  by (simp add: dir_Read_def compressedFile_Readdir_def panics_def)

text \<open>
  On the scenario: \<open>Read\<close> on the handle of \<open>/sub\<close> and \<open>Readdir\<close> on a handle of
  \<open>/a.txt\<close> return an error value; neither panics.
\<close>

theorem wrong_kind_not_fatal:
  "Read (DirFile handle_sub) 4
     = Return (DirFile handle_sub, [], Some (Errorf ''cannot Read from directory sub''))
   \<and> \<not> panics (Read (DirFile handle_sub) 4)
   \<and> Readdir (FileInstance \<lparr>cfile = cf_a, gr = \<lparr>pending = ''hello'', final = EOF\<rparr>\<rparr>) 0
     = Return ([], Some (Errorf ''cannot Readdir from file a.txt''))
   \<and> \<not> panics (Readdir (FileInstance \<lparr>cfile = cf_a, gr = \<lparr>pending = ''hello'', final = EOF\<rparr>\<rparr>) 0)"
  by (simp add: dir_Read_def compressedFile_Readdir_def handle_sub_def cf_a_def panics_def)

section \<open>Properties of the generator\<close>

subsection \<open>Writers that never fail\<close>

lemma Fprint_unbounded: "room w = None \<Longrightarrow> Fprint w s = (w\<lparr>written := written w @ s\<rparr>, None)"
  by (simp add: Fprint_def)

lemma put_unbounded: "room w = None \<Longrightarrow> put w s = w\<lparr>written := written w @ s\<rparr>"
  by (simp add: put_def Fprint_unbounded)

lemma StringWriter_Write_unbounded:
  "room w = None \<Longrightarrow>
     StringWriter_Write w p = w\<lparr>written := written w @ concat (map escape_byte p)\<rparr>"
  unfolding StringWriter_Write_def
  by (induction p arbitrary: w) (simp_all add: put_unbounded)

subsection \<open>The same tree gives the same run\<close>

lemma same_tree_at:
  assumes "same_tree fs1 fs2"
  shows "(\<exists>err. fs1 p = Inl err \<and> fs2 p = Inl err)
     \<or> (\<exists>f1 f2. fs1 p = Inr f1 \<and> fs2 p = Inr f2 \<and> src_Stat f1 = src_Stat f2
           \<and> src_data f1 = src_data f2
           \<and> ((\<exists>err. src_Readdir f1 = Inl err \<and> src_Readdir f2 = Inl err)
              \<or> (\<exists>l1 l2. src_Readdir f1 = Inr l1 \<and> src_Readdir f2 = Inr l2 \<and> mset l1 = mset l2)))"
proof -
  from assms have *: "case (fs1 p, fs2 p) of
            (Inl e1, Inl e2) \<Rightarrow> e1 = e2
          | (Inr f1, Inr f2) \<Rightarrow>
              src_Stat f1 = src_Stat f2 \<and> src_data f1 = src_data f2 \<and>
              (case (src_Readdir f1, src_Readdir f2) of
                 (Inl e1, Inl e2) \<Rightarrow> e1 = e2
               | (Inr l1, Inr l2) \<Rightarrow> mset l1 = mset l2
               | _ \<Rightarrow> False)
          | _ \<Rightarrow> False"
    unfolding same_tree_def by (rule spec)
  show ?thesis
  proof (cases "fs1 p")
    case (Inl e1)
    with * show ?thesis by (cases "fs2 p") simp_all
  next
    case f1: (Inr f1)
    show ?thesis
    proof (cases "fs2 p")
      case (Inl e2)
      with * f1 show ?thesis by simp
    next
      case f2: (Inr f2)
      with * f1 have **: "src_Stat f1 = src_Stat f2 \<and> src_data f1 = src_data f2 \<and>
              (case (src_Readdir f1, src_Readdir f2) of
                 (Inl e1, Inl e2) \<Rightarrow> e1 = e2
               | (Inr l1, Inr l2) \<Rightarrow> mset l1 = mset l2
               | _ \<Rightarrow> False)" by simp
      then have "(\<exists>err. src_Readdir f1 = Inl err \<and> src_Readdir f2 = Inl err)
              \<or> (\<exists>l1 l2. src_Readdir f1 = Inr l1 \<and> src_Readdir f2 = Inr l2 \<and> mset l1 = mset l2)"
        by (cases "src_Readdir f1"; cases "src_Readdir f2") simp_all
      with ** f1 f2 show ?thesis by simp
    qed
  qed
qed

lemma same_tree_Stat: "same_tree fs1 fs2 \<Longrightarrow> vfsutil_Stat fs1 p = vfsutil_Stat fs2 p"
  using same_tree_at [of fs1 fs2 p] by (auto simp: vfsutil_Stat_def)

lemma sort_cong_mset: "mset xs = mset ys \<Longrightarrow> sort xs = sort (ys :: 'a :: linorder list)"
  by (rule properties_for_sort) simp_all

lemma same_tree_ReadDir:
  assumes "same_tree fs1 fs2"
  shows "(\<exists>err. vfsutil_ReadDir fs1 p = Inl err \<and> vfsutil_ReadDir fs2 p = Inl err)
     \<or> (\<exists>l1 l2. vfsutil_ReadDir fs1 p = Inr l1 \<and> vfsutil_ReadDir fs2 p = Inr l2 \<and> mset l1 = mset l2)"
  using same_tree_at [OF assms, of p] by (auto simp: vfsutil_ReadDir_def)

lemma same_tree_readDirNames:
  assumes "same_tree fs1 fs2"
  shows "readDirNames fs1 p = readDirNames fs2 p"
proof -
  from same_tree_ReadDir [OF assms, of p] show ?thesis
  proof (elim disjE exE conjE)
    fix err
    assume "vfsutil_ReadDir fs1 p = Inl err" "vfsutil_ReadDir fs2 p = Inl err"
    then show ?thesis by (simp add: readDirNames_def)
  next
    fix l1 l2
    assume l: "vfsutil_ReadDir fs1 p = Inr l1" "vfsutil_ReadDir fs2 p = Inr l2"
      and m: "mset l1 = mset l2"
    from m have "image_mset Name (mset l1) = image_mset Name (mset l2)" by simp
    then have "mset (map Name l1) = mset (map Name l2)" by simp
    then have "sort (map Name l1) = sort (map Name l2)" by (rule sort_cong_mset)
    with l show ?thesis by (simp add: readDirNames_def)
  qed
qed

lemma same_tree_readDirPaths:
  assumes "same_tree fs1 fs2"
  shows "readDirPaths e fs1 p = readDirPaths e fs2 p"
proof -
  let ?j = "\<lambda>fi. Join e p (Name fi)"
  from same_tree_ReadDir [OF assms, of p] show ?thesis
  proof (elim disjE exE conjE)
    fix err
    assume "vfsutil_ReadDir fs1 p = Inl err" "vfsutil_ReadDir fs2 p = Inl err"
    then show ?thesis by (simp add: readDirPaths_def)
  next
    fix l1 l2
    assume l: "vfsutil_ReadDir fs1 p = Inr l1" "vfsutil_ReadDir fs2 p = Inr l2"
      and m: "mset l1 = mset l2"
    from m have "image_mset ?j (mset l1) = image_mset ?j (mset l2)" by simp
    then have "mset (map ?j l1) = mset (map ?j l2)" by simp
    then have "sort (map ?j l1) = sort (map ?j l2)" by (rule sort_cong_mset)
    with l show ?thesis by (simp add: readDirPaths_def)
  qed
qed

lemma same_tree_walkFn:
  assumes "same_tree fs1 fs2"
  shows "walkFn e fs1 = walkFn e fs2"
proof (intro ext)
  fix p a s
  have "readDirPaths e fs1 p = readDirPaths e fs2 p"
    by (rule same_tree_readDirPaths [OF assms])
  then show "walkFn e fs1 p a s = walkFn e fs2 p a s"
    by (simp add: walkFn_def cong: sum.case_cong if_cong)
qed

lemma walk_same_tree:
  "same_tree fs1 fs2 \<Longrightarrow> walk e n fs1 p i f s = walk e n fs2 p i f s"
  "same_tree fs1 fs2 \<Longrightarrow> walk_names e n fs1 p names f s = walk_names e n fs2 p names f s"
proof (induction e n fs1 p i f s and e n fs1 p names f s rule: walk_walk_names.induct)
  case (1 e fs path info walkFn s)
  show ?case by simp
next
  case (2 e n fs path info walkFn s)
  have names: "readDirNames fs path = readDirNames fs2 path"
    by (rule same_tree_readDirNames [OF "2.prems"])
  show ?case
  proof (cases "walkFn path (Inr info) s")
    case (Pair s1 r)
    show ?thesis
    proof (cases "r = None \<and> IsDir info")
      case False
      with Pair show ?thesis by (cases r) auto
    next
      case True
      show ?thesis
      proof (cases "readDirNames fs2 path")
        case (Inl err)
        with Pair True names show ?thesis by simp
      next
        case (Inr names')
        from True have r: "r = None" and d: "\<not> \<not> IsDir info" by simp_all
        from Inr names have n1: "readDirNames fs path = Inr names'" by simp
        from "2.IH" [OF Pair [symmetric] r d n1 "2.prems"]
        have "walk_names e n fs path names' walkFn s1 = walk_names e n fs2 path names' walkFn s1" .
        with Pair True names Inr show ?thesis by simp
      qed
    qed
  qed
next
  case (3 e n fs path walkFn s)
  show ?case by simp
next
  case (4 e n fs path name' names walkFn s)
  let ?filename = "Join e path name'"
  have stat: "vfsutil_Stat fs ?filename = vfsutil_Stat fs2 ?filename"
    by (rule same_tree_Stat [OF "4.prems"])
  show ?case
  proof (cases "vfsutil_Stat fs2 ?filename")
    case (Inl err)
    with stat have stat1: "vfsutil_Stat fs ?filename = Inl err" by simp
    obtain s1 r where cb: "(s1, r) = walkFn ?filename (Inl err) s"
      by (cases "walkFn ?filename (Inl err) s") auto
    show ?thesis
    proof (cases r)
      case None
      from "4.IH"(1) [OF refl stat1 cb None "4.prems"]
      have "walk_names e n fs path names walkFn s1 = walk_names e n fs2 path names walkFn s1" .
      with cb [symmetric] None Inl stat1 show ?thesis by (simp add: Let_def)
    next
      case (Some err')
      show ?thesis
      proof (cases "err' \<noteq> SkipDir")
        case True
        with cb [symmetric] Some Inl stat1 show ?thesis by (simp add: Let_def)
      next
        case False
        from "4.IH"(2) [OF refl stat1 cb Some False "4.prems"]
        have "walk_names e n fs path names walkFn s1 = walk_names e n fs2 path names walkFn s1" .
        with cb [symmetric] Some False Inl stat1 show ?thesis by (simp add: Let_def)
      qed
    qed
  next
    case (Inr fileInfo)
    with stat "4.IH"(3) [of ?filename fileInfo] "4.prems"
    have child: "walk e n fs ?filename fileInfo walkFn s = walk e n fs2 ?filename fileInfo walkFn s"
      by simp
    from Inr stat have stat1: "vfsutil_Stat fs ?filename = Inr fileInfo" by simp
    show ?thesis
    proof (cases "walk e n fs ?filename fileInfo walkFn s")
      case None
      with Inr stat child show ?thesis by (simp add: Let_def)
    next
      case (Some res)
      note w = Some
      obtain s1 r where res: "(s1, r) = res" by (cases res) auto
      show ?thesis
      proof (cases r)
        case None
        from "4.IH"(4) [OF refl stat1 w res None "4.prems"]
        have "walk_names e n fs path names walkFn s1 = walk_names e n fs2 path names walkFn s1" .
        with w res [symmetric] None child Inr stat1 show ?thesis by (simp add: Let_def)
      next
        case (Some err)
        show ?thesis
        proof (cases "\<not> IsDir fileInfo \<or> err \<noteq> SkipDir")
          case True
          with w res [symmetric] Some child Inr stat1 show ?thesis by (auto simp: Let_def)
        next
          case False
          from "4.IH"(5) [OF refl stat1 w res Some False "4.prems"]
          have "walk_names e n fs path names walkFn s1 = walk_names e n fs2 path names walkFn s1" .
          with w res [symmetric] Some False child Inr stat1 show ?thesis by (auto simp: Let_def)
        qed
      qed
    qed
  qed
qed

lemma same_tree_records:
  "same_tree fs1 fs2 \<Longrightarrow> writeAssets_records e fs1 w toc' = writeAssets_records e fs2 w toc'"
proof (induction toc' arbitrary: w)
  case Nil
  show ?case by simp
next
  case (Cons pa rest)
  have IH: "\<And>w. writeAssets_records e fs1 w rest = writeAssets_records e fs2 w rest"
    by (rule Cons.IH) (rule Cons.prems)
  have "(\<exists>err. fs1 (path pa) = Inl err \<and> fs2 (path pa) = Inl err)
     \<or> (\<exists>f1 f2. fs1 (path pa) = Inr f1 \<and> fs2 (path pa) = Inr f2 \<and> src_data f1 = src_data f2)"
    using same_tree_at [OF Cons.prems, of "path pa"] by blast
  then show ?case
  proof (elim disjE exE conjE)
    fix err
    assume "fs1 (path pa) = Inl err" "fs2 (path pa) = Inl err"
    then show ?thesis
      by (simp add: IH Let_def cong: asset.case_cong prod.case_cong option.case_cong sum.case_cong)
  next
    fix f1 f2
    assume "fs1 (path pa) = Inr f1" "fs2 (path pa) = Inr f2" "src_data f1 = src_data f2"
    then show ?thesis
      by (simp add: IH Let_def cong: asset.case_cong prod.case_cong option.case_cong sum.case_cong)
  qed
qed

lemma same_tree_findFiles:
  assumes "same_tree fs1 fs2"
  shows "findFiles e n fs1 st = findFiles e n fs2 st"
proof -
  have "vfsutil_Walk e n fs1 ''/'' (walkFn e fs1) st = vfsutil_Walk e n fs2 ''/'' (walkFn e fs2) st"
    by (simp add: vfsutil_Walk_def same_tree_walkFn [OF assms] same_tree_Stat [OF assms]
        walk_same_tree(1) [OF assms] cong: sum.case_cong)
  then show ?thesis by (simp add: findFiles_def)
qed

subsection \<open>\<open>Translate\<close>, run on the scenario\<close>

lemma scenario_same_tree: "same_tree scenario_fs reordered_fs"
  unfolding same_tree_def
proof
  fix p
  show "case (scenario_fs p, reordered_fs p) of
            (Inl e1, Inl e2) \<Rightarrow> e1 = e2
          | (Inr f1, Inr f2) \<Rightarrow>
              src_Stat f1 = src_Stat f2 \<and> src_data f1 = src_data f2 \<and>
              (case (src_Readdir f1, src_Readdir f2) of
                 (Inl e1, Inl e2) \<Rightarrow> e1 = e2
               | (Inr l1, Inr l2) \<Rightarrow> mset l1 = mset l2
               | _ \<Rightarrow> False)
          | _ \<Rightarrow> False"
    by (cases "p = ''/''") (simp_all add: reordered_fs_def scenario_fs_def src_dir_def src_file_def)
qed

lemma scenario_differ: "scenario_fs ''/'' \<noteq> reordered_fs ''/''"
  by (simp add: reordered_fs_def scenario_fs_def src_dir_def info_a_def info_sub_def)

lemma scenario_Translate_ok:
  "\<exists>out. Translate toy_env 3 scenario_config = Some (Return (Some out, None))"
proof -
  have v: "validate toy_env (Output scenario_config) (Package scenario_config) = None"
    and c: "os_Create toy_env (Output scenario_config) = Inr \<lparr>written = [], room = None\<rparr>"
    and mt: "MarshalText toy_env t = Inr (itoa t)" for t
    by (simp_all add: toy_env_def scenario_config_def)
  have fs: "scenario_fs ''/a.txt'' = Inr (src_file info_a ''hello'')"
    "scenario_fs ''/sub/b.txt'' = Inr (src_file info_b ''world'')"
    by (simp_all add: scenario_fs_def)
  have ff: "findFiles toy_env 3 (Input scenario_config) \<lparr>toc = [], log = []\<rparr>
      = Some (\<lparr>toc = scenario_toc, log = []\<rparr>, None)"
    using scenario_findFiles by (simp add: scenario_config_def)
  have rec: "\<exists>w'. writeAssets_records toy_env scenario_fs w scenario_toc = Return (w', None)
      \<and> room w' = None" if "room w = None" for w
    using that
    by (simp add: scenario_toc_def Fprint_unbounded put_unbounded StringWriter_Write_unbounded
        mt fs Let_def)
  have ent: "room (writeAssets_entries toy_env w scenario_toc) = None" if "room w = None" for w
    using that by (simp add: scenario_toc_def put_unbounded Let_def)
  have wa: "\<exists>w'. writeAssets toy_env w scenario_config scenario_toc = Return (w', None)
      \<and> room w' = None" if "room w = None" for w
  proof -
    have r2: "room (w\<lparr>written := written w @ imports_text @ assetsFS_open_text\<rparr>) = None"
      using that by simp
    from rec [OF r2] obtain w3 where w3:
      "writeAssets_records toy_env scenario_fs
         (w\<lparr>written := written w @ imports_text @ assetsFS_open_text\<rparr>) scenario_toc
        = Return (w3, None)" "room w3 = None" by blast
    have "room (w3\<lparr>written := written w3 @ [TAB] @ ''}\<newline>\<newline>''\<rparr>) = None"
      using w3(2) by simp
    from ent [OF this] w3 that show ?thesis
      by (simp add: writeAssets_def Fprint_unbounded scenario_config_def)
  qed
  have "room (\<lparr>written = [], room = None\<rparr>
      \<lparr>written := written \<lparr>written = [], room = None\<rparr>
         @ ''// generated via `go generate`; do not edit\<newline>\<newline>''
         @ ''// +build '' @ Tags scenario_config @ ''\<newline>\<newline>''
         @ ''package '' @ Package scenario_config @ ''\<newline>\<newline>''\<rparr>) = None"
    by simp
  from wa [OF this] obtain w4 where w4: "writeAssets toy_env (\<lparr>written = [], room = None\<rparr>
      \<lparr>written := written \<lparr>written = [], room = None\<rparr>
         @ ''// generated via `go generate`; do not edit\<newline>\<newline>''
         @ ''// +build '' @ Tags scenario_config @ ''\<newline>\<newline>''
         @ ''package '' @ Package scenario_config @ ''\<newline>\<newline>''\<rparr>) scenario_config scenario_toc
       = Return (w4, None)" "room w4 = None" by blast
  have tags: "Tags scenario_config \<noteq> []" by (simp add: scenario_config_def)
  from w4 v c ff tags show ?thesis
    by (simp add: Translate_def Fprint_unbounded writeVFS_def)
qed

text \<open>
  C9. \<open>Translate\<close> on two file systems that hold the same tree (the same names,
  contents, sizes and modification times, listed in whatever order) gives the same
  result: the same bytes of output and the same error, for every configuration, library
  and depth bound. Nothing else enters \<open>Translate\<close>: it reads no clock, and the order of
  the table of contents and of every directory's entries comes from sorted names.
\<close>

theorem Translate_same_tree:
  assumes "same_tree fs1 fs2"
  shows "Translate e n (c\<lparr>Input := fs1\<rparr>) = Translate e n (c\<lparr>Input := fs2\<rparr>)"
proof -
  have rec: "writeAssets_records e (Input (c\<lparr>Input := fs1\<rparr>)) w t
      = writeAssets_records e (Input (c\<lparr>Input := fs2\<rparr>)) w t" for w t
    by (simp add: same_tree_records [OF assms])
  have wa: "writeAssets e w (c\<lparr>Input := fs1\<rparr>) t = writeAssets e w (c\<lparr>Input := fs2\<rparr>) t" for w t
    unfolding writeAssets_def rec ..
  have ff: "findFiles e n (Input (c\<lparr>Input := fs1\<rparr>)) st = findFiles e n (Input (c\<lparr>Input := fs2\<rparr>)) st"
    for st
    by (simp add: same_tree_findFiles [OF assms])
  have fields: "Output (c\<lparr>Input := fs1\<rparr>) = Output (c\<lparr>Input := fs2\<rparr>)"
    "Tags (c\<lparr>Input := fs1\<rparr>) = Tags (c\<lparr>Input := fs2\<rparr>)"
    "Package (c\<lparr>Input := fs1\<rparr>) = Package (c\<lparr>Input := fs2\<rparr>)"
    by simp_all
  show ?thesis
    unfolding Translate_def ff wa fields ..
qed

theorem Translate_same_tree_witness:
  "same_tree scenario_fs reordered_fs
   \<and> scenario_fs ''/'' \<noteq> reordered_fs ''/''
   \<and> Translate toy_env 3 scenario_config = Translate toy_env 3 (scenario_config\<lparr>Input := reordered_fs\<rparr>)
   \<and> (\<exists>out. Translate toy_env 3 (scenario_config\<lparr>Input := reordered_fs\<rparr>)
                = Some (Return (Some out, None)))"
  using Translate_same_tree [OF scenario_same_tree, of toy_env 3 scenario_config]
    scenario_same_tree scenario_differ scenario_Translate_ok
  by (simp add: scenario_config_def)

text \<open>
  C7. \<open>writeAssets\<close> drops the error of \<open>c.Input.Open\<close>. With the scenario's table of
  contents and an input that cannot open \<open>/a.txt\<close>, it does not return an error: it
  panics on the \<open>nil\<close> file.
\<close>

theorem writeAssets_unopened_file_panics:
  "unreadable_fs ''/a.txt'' = Inl (IOError ''permission denied'')
   \<and> writeAssets toy_env \<lparr>written = [], room = None\<rparr>
         (scenario_config\<lparr>Input := unreadable_fs\<rparr>) scenario_toc
       = Panic ''runtime error: invalid memory address or nil pointer dereference''"
proof -
  have mt: "MarshalText toy_env t = Inr (itoa t)" for t
    by (simp add: toy_env_def)
  have "writeAssets_records toy_env unreadable_fs w scenario_toc
      = Panic ''runtime error: invalid memory address or nil pointer dereference''"
    if "room w = None" for w
    using that
    by (simp add: scenario_toc_def unreadable_fs_def Fprint_unbounded put_unbounded mt Let_def)
  then show ?thesis
    by (simp add: writeAssets_def Fprint_unbounded unreadable_fs_def)
qed

end
